theory Spec2Isabelle
  imports Complex_Main
begin

section \<open>Strings\<close>

text \<open>
  A JavaScript string is modelled as a \<^typ>\<open>string\<close>: a list of code units below 256.
  In that range \<open>String.prototype.trim\<close> strips TAB, LF, VT, FF, CR, SPACE and the
  no-break space U+00A0 from both ends.
\<close>

definition is_whitespace :: "char \<Rightarrow> bool" where
  "is_whitespace c \<longleftrightarrow>
     c \<in> set [CHR 0x09, CHR 0x0A, CHR 0x0B, CHR 0x0C, CHR 0x0D, CHR 0x20, CHR 0xA0]"

definition trim :: "string \<Rightarrow> string" where
  "trim s = rev (dropWhile is_whitespace (rev (dropWhile is_whitespace s)))"

text \<open>Truthiness of a value that is \<open>null\<close>/\<open>undefined\<close> or a string: the empty string is falsy.\<close>

fun truthy :: "string option \<Rightarrow> bool" where
  "truthy None = False"
| "truthy (Some s) = (s \<noteq> [])"

section \<open>Data model of the application component\<close>

text \<open>
  The component \<open>App\<close> (the JSX text that follows the fetch helpers in
  \<open>src/frontend/services/api.js\<close>, lines 147 to 436) holds its state in React hooks. A
  message's \<open>id\<close> and \<open>timestamp\<close> are read from the wall clock and are left out of the
  record.
\<close>

datatype role = User | Assistant

record message =
  msg_role :: role
  msg_content :: string
  msg_emotion :: "string option"
  msg_sources :: "string list option"

datatype mode = Chat | Query

record app_state =
  conversation :: "message list"
  currentEmotion :: string
  isListening :: bool
  isSpeaking :: bool
  isLoading :: bool
  mode :: mode
  sessionId :: "string option"
  error :: "string option"

text \<open>The body of a successful \<open>/chat\<close> or \<open>/query\<close> reply.\<close>

record response =
  resp_text :: string
  resp_emotion :: string
  resp_session_id :: "string option"
  resp_sources :: "string list option"

text \<open>How an awaited promise settles.\<close>

datatype 'a settled = Resolves 'a | Rejects string

section \<open>Voice parameters (\<open>getVoiceConfig\<close>, \<open>src/frontend/src/services/speech.js\<close>)\<close>

datatype gender = Female | Male
datatype accent = US | UK

record voice_config =
  rate :: real
  pitch :: real
  volume :: real
  gender :: gender
  accent :: accent

definition configs :: "(string \<times> voice_config) list" where
  "configs =
    [(''happy'', \<lparr>rate = 1.1, pitch = 1.2, volume = 0.9, gender = Female, accent = US\<rparr>),
     (''excited'', \<lparr>rate = 1.2, pitch = 1.3, volume = 1.0, gender = Female, accent = US\<rparr>),
     (''thinking'', \<lparr>rate = 0.8, pitch = 0.9, volume = 0.8, gender = Male, accent = UK\<rparr>),
     (''confused'', \<lparr>rate = 0.7, pitch = 0.8, volume = 0.7, gender = Female, accent = US\<rparr>),
     (''explaining'', \<lparr>rate = 0.9, pitch = 1.0, volume = 0.9, gender = Male, accent = US\<rparr>),
     (''encouraging'', \<lparr>rate = 1.0, pitch = 1.1, volume = 0.9, gender = Female, accent = US\<rparr>),
     (''listening'', \<lparr>rate = 1.0, pitch = 1.0, volume = 0.8, gender = Female, accent = US\<rparr>),
     (''surprised'', \<lparr>rate = 1.1, pitch = 1.2, volume = 0.9, gender = Female, accent = US\<rparr>),
     (''neutral'', \<lparr>rate = 1.0, pitch = 1.0, volume = 0.8, gender = Female, accent = US\<rparr>)]"

definition configs_neutral :: voice_config where
  "configs_neutral = \<lparr>rate = 1.0, pitch = 1.0, volume = 0.8, gender = Female, accent = US\<rparr>"

text \<open>
  \<open>configs\<close> is an object literal, so \<open>configs[emotion]\<close> also finds the properties the
  literal inherits from \<open>Object.prototype\<close>. Each of them is a function or an object,
  hence truthy, and \<open>configs[emotion] || configs.neutral\<close> returns it.
\<close>

definition object_prototype_props :: "string list" where
  "object_prototype_props =
    [''constructor'', ''hasOwnProperty'', ''isPrototypeOf'', ''propertyIsEnumerable'',
     ''toLocaleString'', ''toString'', ''valueOf'', ''__proto__'',
     ''__defineGetter__'', ''__defineSetter__'', ''__lookupGetter__'', ''__lookupSetter__'']"

datatype config_value = Config voice_config | Inherited string

definition getVoiceConfig :: "string \<Rightarrow> config_value" where
  "getVoiceConfig emotion =
     (case map_of configs emotion of
        Some c \<Rightarrow> Config c
      | None \<Rightarrow>
          if emotion \<in> set object_prototype_props then Inherited emotion
          else Config configs_neutral)"


section \<open>Effects and runs\<close>

text \<open>
  What a handler does to the outside world, in order: the requests of \<open>ApiService\<close>
  with their JSON payload, the start of playback on the audio element, and the calls on
  the platform synthesizer. \<open>BrowserSpeak\<close> marks the point where a handler turns to
  on-device synthesis: the call of \<open>speechService.speak\<close> in \<open>handleSpeak\<close>, the call of
  \<open>speakWithBrowser\<close> in the hook.
\<close>

datatype effect =
    ChatRequest string "string option"
  | QueryRequest string
  | ResetRequest "string option"
  | TtsRequest string string
  | AudioPlay
  | BrowserSpeak string string
  | SynthesisCancel
  | SynthesisSpeak string config_value
  | SynthesisSpeakFixed string

text \<open>
  The environment of one handler call: how each external operation settles.
\<close>

record env =
  backend :: "response settled"
  tts :: "unit settled"
  audio_element :: bool
  play :: "unit settled"
  synthesis :: bool
  utterance_started :: bool
  utterance :: "unit settled"
  reset :: "unit settled"
  recognition :: "string option settled"

text \<open>
  An asynchronous handler runs to completion between suspensions. A run lists the state
  at each suspension (an \<open>await\<close> on an external operation), the effects issued, the
  state when the handler finishes and how its promise settles.
\<close>

record 's run =
  snaps :: "'s list"
  effects :: "effect list"
  final :: 's
  outcome :: "unit settled"

section \<open>\<open>ApiService\<close> and \<open>SpeechService\<close>\<close>

text \<open>
  \<open>sendChatMessage\<close>, \<open>sendQuery\<close> and \<open>resetConversation\<close> of
  \<open>src/frontend/src/services/api.js\<close>, each as the request it issues: \<open>session_id\<close> is
  put into the payload only when the argument is truthy.
\<close>

definition sendChatMessage :: "string \<Rightarrow> string option \<Rightarrow> effect" where
  "sendChatMessage question sid =
     ChatRequest question (if truthy sid then sid else None)"

definition sendQuery :: "string \<Rightarrow> effect" where
  "sendQuery question = QueryRequest question"

definition resetConversation :: "string option \<Rightarrow> effect" where
  "resetConversation sid = ResetRequest (if truthy sid then sid else None)"

text \<open>
  \<open>SpeechService.speak\<close>: the effects on the synthesizer and how the returned promise
  settles. The choice of a platform voice from the configuration is not modelled.
\<close>

definition speechService_speak ::
  "env \<Rightarrow> string \<Rightarrow> string \<Rightarrow> effect list \<times> unit settled" where
  "speechService_speak e text emotion =
     (if \<not> synthesis e then ([], Rejects ''Speech synthesis not supported'')
      else ([SynthesisCancel, SynthesisSpeak text (getVoiceConfig emotion)], utterance e))"

section \<open>The turn handlers of \<open>App\<close>\<close>

text \<open>
  \<open>handleSpeak\<close> (lines 244 to 273). First its fallback branch together with the outer
  \<open>catch\<close>: whether \<open>speechService.speak\<close> resolves or rejects, \<open>isSpeaking\<close> is cleared and
  the emotion set to \<open>neutral\<close>, and \<open>handleSpeak\<close> itself never rejects.
\<close>

definition handleSpeak_fallback :: "env \<Rightarrow> string \<Rightarrow> string \<Rightarrow> app_state \<Rightarrow> app_state run" where
  "handleSpeak_fallback e text emotion s =
     (let (fx, r) = speechService_speak e text emotion in
      case r of
        Resolves _ \<Rightarrow>
          \<lparr>snaps = [s], effects = BrowserSpeak text emotion # fx,
           final = s\<lparr>isSpeaking := False, currentEmotion := ''neutral''\<rparr>,
           outcome = Resolves ()\<rparr>
      | Rejects _ \<Rightarrow>
          \<lparr>snaps = [s], effects = BrowserSpeak text emotion # fx,
           final = s\<lparr>isSpeaking := False, currentEmotion := ''neutral''\<rparr>,
           outcome = Resolves ()\<rparr>)"

definition handleSpeak :: "env \<Rightarrow> string \<Rightarrow> string \<Rightarrow> app_state \<Rightarrow> app_state run" where
  "handleSpeak e text emotion s =
     (let s1 = s\<lparr>isSpeaking := True\<rparr> in
      case tts e of
        Resolves _ \<Rightarrow>
          if audio_element e then
            (case play e of
               Resolves _ \<Rightarrow>
                 \<lparr>snaps = [s1, s1], effects = [TtsRequest text emotion, AudioPlay],
                  final = s1, outcome = Resolves ()\<rparr>
             | Rejects _ \<Rightarrow>
                 (let r = handleSpeak_fallback e text emotion s1 in
                  r\<lparr>snaps := [s1, s1] @ snaps r,
                    effects := [TtsRequest text emotion, AudioPlay] @ effects r\<rparr>))
          else
            \<lparr>snaps = [s1], effects = [TtsRequest text emotion],
             final = s1, outcome = Resolves ()\<rparr>
      | Rejects _ \<Rightarrow>
          (let r = handleSpeak_fallback e text emotion s1 in
           r\<lparr>snaps := s1 # snaps r, effects := TtsRequest text emotion # effects r\<rparr>))"

text \<open>The \<open>onended\<close> callback that \<open>handleSpeak\<close> installs on the audio element.\<close>

definition audio_onended :: "app_state \<Rightarrow> app_state" where
  "audio_onended s = s\<lparr>isSpeaking := False, currentEmotion := ''neutral''\<rparr>"

definition userMessage :: "string \<Rightarrow> message" where
  "userMessage text =
     \<lparr>msg_role = User, msg_content = text, msg_emotion = None, msg_sources = None\<rparr>"

definition aiMessage :: "response \<Rightarrow> message" where
  "aiMessage r =
     \<lparr>msg_role = Assistant, msg_content = resp_text r, msg_emotion = Some (resp_emotion r),
      msg_sources = Some (case resp_sources r of Some xs \<Rightarrow> xs | None \<Rightarrow> [])\<rparr>"

definition errorMessage :: message where
  "errorMessage =
     \<lparr>msg_role = Assistant,
      msg_content = ''Sorry, I encountered an error. Please try again.'',
      msg_emotion = Some ''confused'', msg_sources = None\<rparr>"

text \<open>
  \<open>handleUserInput\<close> (lines 184 to 241): the \<open>try\<close> block, entered in state \<open>s1\<close>, the
  \<open>catch\<close> block, and the handler with its guard and its \<open>finally\<close>.
\<close>

definition handleUserInput_try :: "env \<Rightarrow> string \<Rightarrow> app_state \<Rightarrow> app_state run" where
  "handleUserInput_try e text s1 =
     (let req = (if mode s1 = Chat then sendChatMessage text (sessionId s1)
                 else sendQuery text) in
      case backend e of
        Rejects err \<Rightarrow>
          \<lparr>snaps = [s1], effects = [req], final = s1, outcome = Rejects err\<rparr>
      | Resolves r \<Rightarrow>
          (let s2 = (if mode s1 = Chat \<and> truthy (resp_session_id r)
                     then s1\<lparr>sessionId := resp_session_id r\<rparr> else s1);
               s3 = s2\<lparr>conversation := conversation s2 @ [aiMessage r],
                       currentEmotion := resp_emotion r\<rparr>;
               sp = handleSpeak e (resp_text r) (resp_emotion r) s3
           in sp\<lparr>snaps := s1 # snaps sp, effects := req # effects sp\<rparr>))"

definition handleUserInput_catch :: "app_state \<Rightarrow> app_state" where
  "handleUserInput_catch s =
     s\<lparr>error := Some ''Failed to get response from AI tutor'',
       currentEmotion := ''confused'',
       conversation := conversation s @ [errorMessage]\<rparr>"

definition handleUserInput :: "env \<Rightarrow> string \<Rightarrow> app_state \<Rightarrow> app_state run" where
  "handleUserInput e text s =
     (if trim text = [] then \<lparr>snaps = [], effects = [], final = s, outcome = Resolves ()\<rparr>
      else
        let s1 = s\<lparr>conversation := conversation s @ [userMessage text],
                   isLoading := True, currentEmotion := ''thinking'', error := None\<rparr>;
            t = handleUserInput_try e text s1;
            c = (case outcome t of
                   Resolves _ \<Rightarrow> final t
                 | Rejects _ \<Rightarrow> handleUserInput_catch (final t))
        in \<lparr>snaps = snaps t, effects = effects t,
            final = c\<lparr>isLoading := False\<rparr>, outcome = Resolves ()\<rparr>)"

text \<open>
  The same handler cut at its first \<open>await\<close>. \<open>handleUserInput_start\<close> is the state in
  which the handler suspends on the backend call. \<open>handleUserInput_resume\<close> is the rest of
  the handler, run when the call settles on the state \<open>c\<close> that is current then: the
  setters write to the current state (\<open>setConversation\<close> with an updater function), and
  \<open>m\<close> is the \<open>mode\<close> the closure captured when the handler was called. Nothing in the
  handler tells whether another handler ran during the suspension.
\<close>

definition handleUserInput_start :: "string \<Rightarrow> app_state \<Rightarrow> app_state" where
  "handleUserInput_start text s =
     s\<lparr>conversation := conversation s @ [userMessage text],
       isLoading := True, currentEmotion := ''thinking'', error := None\<rparr>"

definition handleUserInput_resume :: "env \<Rightarrow> mode \<Rightarrow> app_state \<Rightarrow> app_state run" where
  "handleUserInput_resume e m c =
     (case backend e of
        Rejects _ \<Rightarrow>
          \<lparr>snaps = [], effects = [],
           final = (handleUserInput_catch c)\<lparr>isLoading := False\<rparr>, outcome = Resolves ()\<rparr>
      | Resolves r \<Rightarrow>
          (let c2 = (if m = Chat \<and> truthy (resp_session_id r)
                     then c\<lparr>sessionId := resp_session_id r\<rparr> else c);
               c3 = c2\<lparr>conversation := conversation c2 @ [aiMessage r],
                       currentEmotion := resp_emotion r\<rparr>;
               sp = handleSpeak e (resp_text r) (resp_emotion r) c3
           in \<lparr>snaps = snaps sp, effects = effects sp,
               final = (final sp)\<lparr>isLoading := False\<rparr>, outcome = Resolves ()\<rparr>))"


text \<open>\<open>handleClearConversation\<close> (lines 303 to 315) and \<open>handleToggleMode\<close> (lines 318 to 321).\<close>

definition cleared :: "app_state \<Rightarrow> app_state" where
  "cleared s = s\<lparr>conversation := [], sessionId := None,
                 currentEmotion := ''neutral'', error := None\<rparr>"

definition handleClearConversation :: "env \<Rightarrow> app_state \<Rightarrow> app_state run" where
  "handleClearConversation e s =
     (if truthy (sessionId s) then
        (case reset e of
           Resolves _ \<Rightarrow>
             \<lparr>snaps = [s], effects = [resetConversation (sessionId s)],
              final = cleared s, outcome = Resolves ()\<rparr>
         | Rejects _ \<Rightarrow>
             \<lparr>snaps = [s], effects = [resetConversation (sessionId s)],
              final = s, outcome = Resolves ()\<rparr>)
      else \<lparr>snaps = [], effects = [], final = cleared s, outcome = Resolves ()\<rparr>)"

definition handleToggleMode :: "env \<Rightarrow> app_state \<Rightarrow> app_state run" where
  "handleToggleMode e s =
     handleClearConversation e (s\<lparr>mode := (if mode s = Chat then Query else Chat)\<rparr>)"



text \<open>Consecutive turns, each with its own environment.\<close>

fun turns :: "(env \<times> string) list \<Rightarrow> app_state \<Rightarrow> app_state" where
  "turns [] s = s"
| "turns ((e, text) # rest) s = turns rest (final (handleUserInput e text s))"

text \<open>\<open>UI_CONFIG.CONVERSATION_MAX_MESSAGES\<close> of \<open>constants.js\<close>; no source file reads it.\<close>

definition CONVERSATION_MAX_MESSAGES :: nat where
  "CONVERSATION_MAX_MESSAGES = 100"

section \<open>The earlier \<open>App.js\<close>\<close>

text \<open>
  \<open>src/frontend/App.js\<close> (\<open>handleUserInput\<close>, lines 95 to 135, and \<open>handleSpeak\<close>, lines
  137 to 185) has no session and no error field. Its \<open>handleSpeak\<close> wraps the
  platform synthesizer in a promise that only ever resolves; \<open>isSpeaking\<close> is raised by
  the utterance's \<open>onstart\<close>.
\<close>

definition legacy_handleSpeak :: "env \<Rightarrow> string \<Rightarrow> app_state \<Rightarrow> app_state run" where
  "legacy_handleSpeak e text s =
     (if \<not> synthesis e then \<lparr>snaps = [], effects = [], final = s, outcome = Resolves ()\<rparr>
      else
        let s1 = (if utterance_started e then s\<lparr>isSpeaking := True\<rparr> else s) in
        \<lparr>snaps = (if utterance_started e then [s, s1] else [s]),
         effects = [SynthesisCancel, SynthesisSpeakFixed text],
         final = (case utterance e of
                    Resolves _ \<Rightarrow> s1\<lparr>isSpeaking := False, currentEmotion := ''neutral''\<rparr>
                  | Rejects _ \<Rightarrow> s1\<lparr>isSpeaking := False, currentEmotion := ''confused''\<rparr>),
         outcome = Resolves ()\<rparr>)"

definition legacy_errorMessage :: message where
  "legacy_errorMessage =
     \<lparr>msg_role = Assistant,
      msg_content = ''Sorry, I encountered an error. Please try again.'',
      msg_emotion = Some ''confused'', msg_sources = None\<rparr>"

definition legacy_aiMessage :: "response \<Rightarrow> message" where
  "legacy_aiMessage r =
     \<lparr>msg_role = Assistant, msg_content = resp_text r, msg_emotion = Some (resp_emotion r),
      msg_sources = None\<rparr>"

definition legacy_handleUserInput_try :: "env \<Rightarrow> string \<Rightarrow> app_state \<Rightarrow> app_state run" where
  "legacy_handleUserInput_try e text s1 =
     (let req = (if mode s1 = Chat then ChatRequest text None else QueryRequest text) in
      case backend e of
        Rejects err \<Rightarrow>
          \<lparr>snaps = [s1], effects = [req], final = s1, outcome = Rejects err\<rparr>
      | Resolves r \<Rightarrow>
          (let s2 = s1\<lparr>conversation := conversation s1 @ [legacy_aiMessage r],
                       currentEmotion := resp_emotion r\<rparr>;
               sp = legacy_handleSpeak e (resp_text r) s2
           in sp\<lparr>snaps := s1 # snaps sp, effects := req # effects sp\<rparr>))"

definition legacy_handleUserInput :: "env \<Rightarrow> string \<Rightarrow> app_state \<Rightarrow> app_state run" where
  "legacy_handleUserInput e text s =
     (if trim text = [] then \<lparr>snaps = [], effects = [], final = s, outcome = Resolves ()\<rparr>
      else
        let s1 = s\<lparr>conversation := conversation s @ [userMessage text],
                   isLoading := True, currentEmotion := ''thinking''\<rparr>;
            t = legacy_handleUserInput_try e text s1;
            c = (case outcome t of
                   Resolves _ \<Rightarrow> final t
                 | Rejects _ \<Rightarrow>
                     (final t)\<lparr>conversation := conversation (final t) @ [legacy_errorMessage],
                               currentEmotion := ''confused''\<rparr>)
        in \<lparr>snaps = snaps t, effects = effects t,
            final = c\<lparr>isLoading := False\<rparr>, outcome = Resolves ()\<rparr>)"


section \<open>The hook \<open>useTextToSpeech\<close> (\<open>src/unnamed/part_002\<close>, lines 5 to 202)\<close>





section \<open>\<open>AudioRecorder.stopRecording\<close> (\<open>audioRecorder.js\<close>, lines 87 to 109)\<close>

datatype recorder_state = Inactive | Recording | Paused

record media_recorder =
  state :: recorder_state
  mimeType :: string

text \<open>The fields of \<open>AudioRecorder\<close> that \<open>stopRecording\<close> reads or writes; a chunk is its bytes.\<close>

record audio_recorder =
  mediaRecorder :: "media_recorder option"
  audioChunks :: "string list"
  isRecording :: bool

record blob =
  blob_parts :: "string list"
  blob_type :: string

text \<open>
  What the platform recorder does after \<open>stop()\<close>: it delivers the buffered data and
  fires \<open>stop\<close>, or fires \<open>error\<close> first, or fires nothing.
\<close>

datatype stop_events = StopEvent "string list" | ErrorEvent string | NoEvent

datatype 'a promise = Fulfilled 'a | RejectedWith string | Pending

definition ondataavailable :: "string \<Rightarrow> string list \<Rightarrow> string list" where
  "ondataavailable d chunks = (if length d > 0 then chunks @ [d] else chunks)"

definition stopRecording ::
  "stop_events \<Rightarrow> audio_recorder \<Rightarrow> audio_recorder \<times> blob option promise" where
  "stopRecording ev r =
     (case mediaRecorder r of
        None \<Rightarrow> (r, Fulfilled None)
      | Some m \<Rightarrow>
          if state m = Inactive then (r, Fulfilled None)
          else
            (case ev of
               StopEvent ds \<Rightarrow>
                 (let chunks = fold ondataavailable ds (audioChunks r) in
                  (r\<lparr>mediaRecorder := Some (m\<lparr>state := Inactive\<rparr>),
                     audioChunks := [], isRecording := False\<rparr>,
                   Fulfilled (Some \<lparr>blob_parts = chunks, blob_type = mimeType m\<rparr>)))
             | ErrorEvent err \<Rightarrow>
                 (r\<lparr>mediaRecorder := Some (m\<lparr>state := Inactive\<rparr>)\<rparr>,
                  RejectedWith (''Recording error: '' @ err))
             | NoEvent \<Rightarrow> (r, Pending)))"


section \<open>Example states and environments\<close>

text \<open>The state of \<open>App\<close> after mounting: the initial values of its \<open>useState\<close> calls.\<close>

definition initial_state :: app_state where
  "initial_state =
     \<lparr>conversation = [], currentEmotion = ''neutral'', isListening = False,
      isSpeaking = False, isLoading = False, mode = Chat, sessionId = None, error = None\<rparr>"

definition example_response :: response where
  "example_response =
     \<lparr>resp_text = ''It is a language'', resp_emotion = ''explaining'',
      resp_session_id = Some ''s1'', resp_sources = None\<rparr>"

text \<open>Everything succeeds.\<close>

definition env_ok :: env where
  "env_ok =
     \<lparr>backend = Resolves example_response, tts = Resolves (), audio_element = True,
      play = Resolves (), synthesis = True, utterance_started = True,
      utterance = Resolves (), reset = Resolves (),
      recognition = Resolves (Some ''What is Python?'')\<rparr>"

text \<open>The remote TTS request fails, on-device synthesis works.\<close>

definition env_tts_down :: env where
  "env_tts_down = env_ok\<lparr>tts := Rejects ''Failed to convert text to speech''\<rparr>"


text \<open>The backend is unreachable.\<close>

definition env_backend_down :: env where
  "env_backend_down =
     env_ok\<lparr>backend := Rejects ''Failed to fetch'', reset := Rejects ''Failed to fetch''\<rparr>"





definition fresh_recorder :: audio_recorder where
  "fresh_recorder = \<lparr>mediaRecorder = None, audioChunks = [], isRecording = False\<rparr>"

definition recording_recorder :: audio_recorder where
  "recording_recorder =
     \<lparr>mediaRecorder = Some \<lparr>state = Recording, mimeType = ''audio/webm''\<rparr>,
      audioChunks = [''ab''], isRecording = True\<rparr>"

section \<open>Predicates on the environment\<close>



definition nonblank :: "env \<times> string \<Rightarrow> bool" where
  "nonblank et \<longleftrightarrow> trim (snd et) \<noteq> []"

section \<open>Auxiliary facts\<close>

lemma dropWhile_all_iff: "(\<forall>x\<in>set (dropWhile P xs). P x) \<longleftrightarrow> (\<forall>x\<in>set xs. P x)"
  by (induction xs) auto

lemma trim_Nil_iff: "trim s = [] \<longleftrightarrow> (\<forall>c\<in>set s. is_whitespace c)"
  by (simp add: trim_def dropWhile_all_iff)

lemma trim_hi: "trim ''hi'' = ''hi''"
  by (simp add: trim_def is_whitespace_def)

lemmas run_defs = handleUserInput_def handleUserInput_try_def handleUserInput_catch_def
  handleSpeak_def handleSpeak_fallback_def speechService_speak_def

lemma snaps_handleSpeak:
  "list_all P (snaps (handleSpeak e text emotion s)) \<longleftrightarrow> P (s\<lparr>isSpeaking := True\<rparr>)"
  by (auto simp: handleSpeak_def handleSpeak_fallback_def speechService_speak_def Let_def
      split: settled.splits)

lemma final_handleSpeak_flags:
  "isLoading (final (handleSpeak e text emotion s)) = isLoading s"
  "isListening (final (handleSpeak e text emotion s)) = isListening s"
  by (auto simp: handleSpeak_def handleSpeak_fallback_def speechService_speak_def Let_def
      split: settled.splits)

lemma outcome_handleSpeak [simp]:
  "outcome (handleSpeak e text emotion s) = Resolves ()"
  by (auto simp: handleSpeak_def handleSpeak_fallback_def speechService_speak_def Let_def
      split: settled.splits)

lemma conversation_handleSpeak [simp]:
  "conversation (final (handleSpeak e text emotion s)) = conversation s"
  by (auto simp: handleSpeak_def handleSpeak_fallback_def speechService_speak_def Let_def
      split: settled.splits)


lemma conversation_handleUserInput:
  "trim text \<noteq> [] \<Longrightarrow>
   conversation (final (handleUserInput e text s))
     = conversation s @ [userMessage text,
         (case backend e of Resolves r \<Rightarrow> aiMessage r | Rejects _ \<Rightarrow> errorMessage)]"
  by (simp add: handleUserInput_def handleUserInput_try_def handleUserInput_catch_def Let_def
      split: settled.splits)

lemma final_handleUserInput_blank:
  "trim text = [] \<Longrightarrow> final (handleUserInput e text s) = s"
  by (simp add: handleUserInput_def)

lemma length_conversation_turns:
  "list_all nonblank ts \<Longrightarrow>
   length (conversation (turns ts s)) = length (conversation s) + 2 * length ts"
  by (induction ts arbitrary: s) (auto simp: nonblank_def conversation_handleUserInput)

lemma take_conversation_turns:
  "take (length (conversation s)) (conversation (turns ts s)) = conversation s"
proof (induction ts arbitrary: s)
  case Nil
  then show ?case by simp
next
  case (Cons et ts)
  obtain e q where et: "et = (e, q)" by (cases et)
  let ?s' = "final (handleUserInput e q s)"
  have "\<exists>ys. conversation ?s' = conversation s @ ys"
    by (cases "trim q = []")
      (simp_all add: final_handleUserInput_blank conversation_handleUserInput)
  then obtain ys where ys: "conversation ?s' = conversation s @ ys" ..
  have "take (length (conversation ?s')) (conversation (turns ts ?s')) = conversation ?s'"
    by (rule Cons.IH)
  then have "take (length (conversation s))
               (take (length (conversation ?s')) (conversation (turns ts ?s')))
             = take (length (conversation s)) (conversation ?s')"
    by simp
  then show ?case by (simp add: et ys min_def)
qed

lemma speaking_snaps_handleUserInput:
  "trim text \<noteq> [] \<Longrightarrow> backend e = Resolves r \<Longrightarrow>
   list_all (\<lambda>st. currentEmotion st = resp_emotion r \<and> isSpeaking st \<and> isLoading st)
     (tl (snaps (handleUserInput e text s)))"
  by (simp add: handleUserInput_def handleUserInput_try_def Let_def snaps_handleSpeak)

lemma tl_snaps_nonempty:
  "trim text \<noteq> [] \<Longrightarrow> backend e = Resolves r \<Longrightarrow>
   tl (snaps (handleUserInput e text s)) \<noteq> []"
  by (auto simp: handleUserInput_def handleUserInput_try_def handleSpeak_def
      handleSpeak_fallback_def speechService_speak_def Let_def split: settled.splits)

text \<open>
  A handler that runs alone is its start followed at once by its resumption on the
  state it suspended in.
\<close>

lemma handleUserInput_split:
  "trim text \<noteq> [] \<Longrightarrow>
   snaps (handleUserInput e text s)
     = handleUserInput_start text s
       # snaps (handleUserInput_resume e (mode s) (handleUserInput_start text s))
   \<and> effects (handleUserInput e text s)
     = (if mode s = Chat then sendChatMessage text (sessionId s) else sendQuery text)
       # effects (handleUserInput_resume e (mode s) (handleUserInput_start text s))
   \<and> final (handleUserInput e text s)
     = final (handleUserInput_resume e (mode s) (handleUserInput_start text s))
   \<and> outcome (handleUserInput e text s) = Resolves ()"
  by (simp add: handleUserInput_def handleUserInput_try_def handleUserInput_start_def
      handleUserInput_resume_def Let_def split: settled.splits)

lemma legacy_snaps:
  "trim text \<noteq> [] \<Longrightarrow> \<not> isListening s \<Longrightarrow>
   snaps (legacy_handleUserInput e text s) \<noteq> []
   \<and> list_all (\<lambda>st. isLoading st \<and> \<not> isListening st)
        (snaps (legacy_handleUserInput e text s))
   \<and> \<not> isLoading (final (legacy_handleUserInput e text s))
   \<and> \<not> isListening (final (legacy_handleUserInput e text s))"
  by (simp add: legacy_handleUserInput_def legacy_handleUserInput_try_def
      legacy_handleSpeak_def Let_def split: settled.splits)

lemma legacy_overlap:
  "trim text \<noteq> [] \<Longrightarrow> backend e = Resolves r \<Longrightarrow> synthesis e \<Longrightarrow>
   utterance_started e \<Longrightarrow>
   isLoading (last (snaps (legacy_handleUserInput e text s)))
   \<and> isSpeaking (last (snaps (legacy_handleUserInput e text s)))"
  by (simp add: legacy_handleUserInput_def legacy_handleUserInput_try_def
      legacy_handleSpeak_def Let_def split: settled.splits)



text \<open>
  A handler that runs during the suspension of another is not held back: a second turn
  started while the first waits for the backend ends with \<open>isLoading\<close> false, whatever
  the first one does later.
\<close>

lemma second_turn_clears_loading:
  "trim q \<noteq> [] \<Longrightarrow>
   isLoading (handleUserInput_start text s)
   \<and> \<not> isLoading (final (handleUserInput e q (handleUserInput_start text s)))"
  by (auto simp: handleUserInput_def handleUserInput_try_def handleUserInput_catch_def
      handleUserInput_start_def Let_def final_handleSpeak_flags split: settled.splits)

section \<open>The flags during a turn\<close>

text \<open>
  Claim C1, as stated: during a turn driven by \<open>handleUserInput\<close> at most one of
  \<open>isLoading\<close>, \<open>isSpeaking\<close>, \<open>isListening\<close> is true, and \<open>isLoading\<close> is false while
  \<open>isSpeaking\<close> is true. It fails: with the remote TTS request rejecting, the third
  suspension of the turn is the wait for the on-device utterance, and there both
  \<open>isLoading\<close> and \<open>isSpeaking\<close> are true.
\<close>

theorem loading_and_speaking_overlap:
  "isLoading (snaps (handleUserInput env_tts_down ''hi'' initial_state) ! 2)
   \<and> isSpeaking (snaps (handleUserInput env_tts_down ''hi'' initial_state) ! 2)
   \<and> effects (handleUserInput env_tts_down ''hi'' initial_state) ! 2
       = BrowserSpeak ''It is a language'' ''explaining''"
  by (simp add: run_defs trim_hi env_tts_down_def env_ok_def initial_state_def
      example_response_def Let_def sendChatMessage_def)

text \<open>
  Claim C1, amended: take a turn driven by \<open>handleUserInput\<close> with non-blank text that
  runs alone (no other handler runs while it is suspended) and starts with \<open>isListening\<close>
  false. Then \<open>isListening\<close> is false and \<open>isLoading\<close> is true at every suspension of the
  turn, and \<open>isLoading\<close> is false only once the handler has finished. When the backend
  call resolves, \<open>isLoading\<close> and \<open>isSpeaking\<close> are true together at every suspension
  after the first, that is during the whole speaking phase awaited inside the handler.
  The same holds for the earlier \<open>App.js\<close>, where \<open>isSpeaking\<close> is raised by the
  utterance's \<open>onstart\<close>: once it has fired, both flags are true at the last suspension.
\<close>

theorem loading_spans_the_turn:
  assumes "trim text \<noteq> []" and "\<not> isListening s"
  shows "snaps (handleUserInput e text s) \<noteq> []
       \<and> list_all (\<lambda>st. isLoading st \<and> \<not> isListening st) (snaps (handleUserInput e text s))
       \<and> \<not> isLoading (final (handleUserInput e text s))
       \<and> \<not> isListening (final (handleUserInput e text s))
       \<and> (backend e = Resolves r \<longrightarrow>
            tl (snaps (handleUserInput e text s)) \<noteq> []
            \<and> list_all (\<lambda>st. isLoading st \<and> isSpeaking st)
                 (tl (snaps (handleUserInput e text s))))
       \<and> snaps (legacy_handleUserInput e text s) \<noteq> []
       \<and> list_all (\<lambda>st. isLoading st \<and> \<not> isListening st)
            (snaps (legacy_handleUserInput e text s))
       \<and> \<not> isLoading (final (legacy_handleUserInput e text s))
       \<and> \<not> isListening (final (legacy_handleUserInput e text s))
       \<and> (backend e = Resolves r \<and> synthesis e \<and> utterance_started e \<longrightarrow>
            isLoading (last (snaps (legacy_handleUserInput e text s)))
            \<and> isSpeaking (last (snaps (legacy_handleUserInput e text s))))"
proof -
  have main: "snaps (handleUserInput e text s) \<noteq> []
       \<and> list_all (\<lambda>st. isLoading st \<and> \<not> isListening st) (snaps (handleUserInput e text s))
       \<and> \<not> isLoading (final (handleUserInput e text s))
       \<and> \<not> isListening (final (handleUserInput e text s))"
    using assms
    by (auto simp: handleUserInput_def handleUserInput_try_def handleUserInput_catch_def Let_def
        snaps_handleSpeak final_handleSpeak_flags split: settled.splits)
  have overlap: "backend e = Resolves r \<longrightarrow>
            tl (snaps (handleUserInput e text s)) \<noteq> []
            \<and> list_all (\<lambda>st. isLoading st \<and> isSpeaking st)
                 (tl (snaps (handleUserInput e text s)))"
  proof
    assume b: "backend e = Resolves r"
    have "list_all (\<lambda>st. isLoading st \<and> isSpeaking st)
            (tl (snaps (handleUserInput e text s)))"
      using speaking_snaps_handleUserInput [OF assms(1) b, of s] by (simp add: list_all_iff)
    with tl_snaps_nonempty [OF assms(1) b, of s]
    show "tl (snaps (handleUserInput e text s)) \<noteq> []
            \<and> list_all (\<lambda>st. isLoading st \<and> isSpeaking st)
                 (tl (snaps (handleUserInput e text s)))"
      by simp
  qed
  from main overlap legacy_snaps [OF assms, of e] legacy_overlap [OF assms(1), of e r s]
  show ?thesis by blast
qed

theorem loading_spans_the_turn_witness:
  "trim ''hi'' \<noteq> [] \<and> \<not> isListening initial_state
   \<and> backend env_tts_down = Resolves example_response
   \<and> synthesis env_tts_down \<and> utterance_started env_tts_down
   \<and> list_all (\<lambda>st. isLoading st \<and> \<not> isListening st)
        (snaps (handleUserInput env_tts_down ''hi'' initial_state))
   \<and> list_all (\<lambda>st. isLoading st \<and> isSpeaking st)
        (tl (snaps (handleUserInput env_tts_down ''hi'' initial_state)))
   \<and> \<not> isLoading (final (handleUserInput env_tts_down ''hi'' initial_state))
   \<and> isLoading (last (snaps (legacy_handleUserInput env_tts_down ''hi'' initial_state)))
   \<and> isSpeaking (last (snaps (legacy_handleUserInput env_tts_down ''hi'' initial_state)))"
  using loading_spans_the_turn [of "''hi''" initial_state env_tts_down example_response]
  by (simp add: trim_hi initial_state_def env_tts_down_def env_ok_def)

section \<open>A failing backend\<close>

text \<open>
  Claim C3: when the backend call of a turn rejects, the log gains the user message
  followed by exactly one assistant apology with the fixed text, the emotion becomes
  \<open>confused\<close>, \<open>isLoading\<close> is false again, the other two flags are as before, and the
  promise of \<open>handleUserInput\<close> resolves. The same holds for the handler of the earlier
  \<open>App.js\<close>.
\<close>

theorem backend_rejection_apology:
  assumes "trim text \<noteq> []" and "backend e = Rejects err"
  shows "conversation (final (handleUserInput e text s))
           = conversation s @ [userMessage text, errorMessage]
       \<and> msg_role errorMessage = Assistant
       \<and> msg_content errorMessage = ''Sorry, I encountered an error. Please try again.''
       \<and> currentEmotion (final (handleUserInput e text s)) = ''confused''
       \<and> isLoading (final (handleUserInput e text s)) = False
       \<and> isSpeaking (final (handleUserInput e text s)) = isSpeaking s
       \<and> isListening (final (handleUserInput e text s)) = isListening s
       \<and> outcome (handleUserInput e text s) = Resolves ()
       \<and> conversation (final (legacy_handleUserInput e text s))
           = conversation s @ [userMessage text, legacy_errorMessage]
       \<and> msg_content legacy_errorMessage = ''Sorry, I encountered an error. Please try again.''
       \<and> currentEmotion (final (legacy_handleUserInput e text s)) = ''confused''
       \<and> isLoading (final (legacy_handleUserInput e text s)) = False
       \<and> isSpeaking (final (legacy_handleUserInput e text s)) = isSpeaking s
       \<and> isListening (final (legacy_handleUserInput e text s)) = isListening s
       \<and> outcome (legacy_handleUserInput e text s) = Resolves ()"
  using assms
  by (simp add: run_defs legacy_handleUserInput_def legacy_handleUserInput_try_def
      errorMessage_def legacy_errorMessage_def Let_def)

theorem backend_rejection_apology_witness:
  "trim ''hi'' \<noteq> [] \<and> backend env_backend_down = Rejects ''Failed to fetch''
   \<and> conversation (final (handleUserInput env_backend_down ''hi'' initial_state))
       = [userMessage ''hi'', errorMessage]
   \<and> isLoading (final (handleUserInput env_backend_down ''hi'' initial_state)) = False"
  using backend_rejection_apology
    [of "''hi''" env_backend_down "''Failed to fetch''" initial_state]
  by (simp add: trim_hi env_backend_down_def env_ok_def initial_state_def)

section \<open>Blank input\<close>

text \<open>
  Claim C9: submitting a text that consists of whitespace only (the empty text
  included) is a no-op: the run has no suspension and no effect, so no request is
  issued, and the whole state, with the log, the three flags, the emotion and the
  session id, is unchanged. The same holds for the handler of the earlier \<open>App.js\<close>.
\<close>

theorem blank_input_is_noop:
  assumes "\<forall>c\<in>set text. is_whitespace c"
  shows "handleUserInput e text s
           = \<lparr>snaps = [], effects = [], final = s, outcome = Resolves ()\<rparr>
       \<and> legacy_handleUserInput e text s
           = \<lparr>snaps = [], effects = [], final = s, outcome = Resolves ()\<rparr>"
  using assms by (simp add: handleUserInput_def legacy_handleUserInput_def trim_Nil_iff)

theorem blank_input_is_noop_witness:
  "list_all is_whitespace '' ''
   \<and> handleUserInput env_ok '' '' initial_state
       = \<lparr>snaps = [], effects = [], final = initial_state, outcome = Resolves ()\<rparr>"
  using blank_input_is_noop [of "'' ''" env_ok initial_state]
  by (simp add: is_whitespace_def)

section \<open>Stopping a recorder that is not recording\<close>

text \<open>
  Claim C10: \<open>stopRecording\<close> called when there is no \<open>MediaRecorder\<close> or its state is
  \<open>inactive\<close> resolves with \<open>null\<close> and leaves the recorder as it was, whatever the
  platform does; and whenever the promise resolves with a blob, a recorder existed and
  was not inactive.
\<close>

theorem stopRecording_idle_resolves_null:
  "(mediaRecorder r = None \<or> (\<exists>m. mediaRecorder r = Some m \<and> state m = Inactive)
      \<longrightarrow> stopRecording ev r = (r, Fulfilled None))
   \<and> (snd (stopRecording ev r) = Fulfilled (Some b)
      \<longrightarrow> (\<exists>m. mediaRecorder r = Some m \<and> state m \<noteq> Inactive))"
  by (auto simp: stopRecording_def Let_def split: option.splits stop_events.splits if_splits)

theorem stopRecording_idle_resolves_null_witness:
  "mediaRecorder fresh_recorder = None
   \<and> stopRecording (StopEvent [''cd'']) fresh_recorder = (fresh_recorder, Fulfilled None)
   \<and> snd (stopRecording (StopEvent [''cd'', []]) recording_recorder)
       = Fulfilled (Some \<lparr>blob_parts = [''ab'', ''cd''], blob_type = ''audio/webm''\<rparr>)
   \<and> (\<exists>m. mediaRecorder recording_recorder = Some m \<and> state m \<noteq> Inactive)"
  using stopRecording_idle_resolves_null
      [where r = fresh_recorder and ev = "StopEvent [''cd'']"]
    stopRecording_idle_resolves_null
      [where r = recording_recorder and ev = "StopEvent [''cd'', []]"
        and b = "\<lparr>blob_parts = [''ab'', ''cd''], blob_type = ''audio/webm''\<rparr>"]
  by (simp add: fresh_recorder_def recording_recorder_def stopRecording_def
      ondataavailable_def)

section \<open>Calls made while a turn is in flight\<close>





section \<open>The length of the log\<close>

text \<open>
  Claim C6, as stated: the log never grows beyond a fixed maximum length. It fails:
  51 turns from the initial state leave 102 messages in the log, more than
  \<open>CONVERSATION_MAX_MESSAGES\<close>, the only bound the sources name.
\<close>

theorem log_exceeds_max_messages:
  "length (conversation (turns (replicate 51 (env_backend_down, ''hi'')) initial_state)) = 102
   \<and> CONVERSATION_MAX_MESSAGES = 100"
  using length_conversation_turns [of "replicate 51 (env_backend_down, ''hi'')" initial_state]
  by (simp add: list_all_iff nonblank_def trim_hi initial_state_def
      CONVERSATION_MAX_MESSAGES_def)

text \<open>
  Claim C6, amended: the log is append-only and has no bound. Over any sequence of
  turns the messages already in the log stay in place unchanged; each turn with
  non-blank text appends exactly two messages, the user message and then the assistant
  reply or the apology; nothing is ever dropped.
\<close>

theorem log_is_append_only:
  "take (length (conversation s)) (conversation (turns ts s)) = conversation s
   \<and> (list_all nonblank ts \<longrightarrow>
        length (conversation (turns ts s)) = length (conversation s) + 2 * length ts)
   \<and> (trim text \<noteq> [] \<longrightarrow>
        conversation (final (handleUserInput e text s))
          = conversation s @ [userMessage text,
              (case backend e of Resolves r \<Rightarrow> aiMessage r | Rejects _ \<Rightarrow> errorMessage)])"
  by (simp add: take_conversation_turns length_conversation_turns
      conversation_handleUserInput)

theorem log_is_append_only_witness:
  "list_all nonblank [(env_backend_down, ''hi''), (env_backend_down, ''hi'')]
   \<and> length (conversation
        (turns [(env_backend_down, ''hi''), (env_backend_down, ''hi'')] initial_state)) = 4
   \<and> trim ''hi'' \<noteq> []
   \<and> conversation (final (handleUserInput env_backend_down ''hi'' initial_state))
       = [userMessage ''hi'', errorMessage]"
  using log_is_append_only
    [of initial_state "[(env_backend_down, ''hi''), (env_backend_down, ''hi'')]" "''hi''"
      env_backend_down]
  by (simp add: nonblank_def trim_hi initial_state_def env_backend_down_def env_ok_def)

section \<open>Toggling the mode\<close>

text \<open>
  Claim C7, as stated: in every state, toggling the mode empties the log, sets
  \<open>sessionId\<close> to \<open>null\<close> and the emotion to \<open>neutral\<close>. It fails when a session exists and
  the \<open>/reset\<close> request rejects: the mode changes, the log and the session id stay.
\<close>

theorem toggle_keeps_log_when_reset_fails:
  "conversation (final (handleToggleMode env_backend_down
       (initial_state\<lparr>conversation := [userMessage ''hi''], sessionId := Some ''s1''\<rparr>)))
     = [userMessage ''hi'']
   \<and> sessionId (final (handleToggleMode env_backend_down
       (initial_state\<lparr>conversation := [userMessage ''hi''], sessionId := Some ''s1''\<rparr>)))
     = Some ''s1''
   \<and> mode (final (handleToggleMode env_backend_down
       (initial_state\<lparr>conversation := [userMessage ''hi''], sessionId := Some ''s1''\<rparr>)))
     = Query"
  by (simp add: handleToggleMode_def handleClearConversation_def env_backend_down_def
      env_ok_def initial_state_def)

text \<open>
  Claim C7, amended: toggling the mode flips it and, when there is no stored session or
  the \<open>/reset\<close> request resolves, empties the log, sets \<open>sessionId\<close> to \<open>null\<close> and the
  emotion to \<open>neutral\<close>; when a session is stored and \<open>/reset\<close> rejects, only the mode
  changes.
\<close>

theorem toggle_clears_when_reset_succeeds:
  "((truthy (sessionId s) \<longrightarrow> reset e = Resolves ()) \<longrightarrow>
      conversation (final (handleToggleMode e s)) = []
      \<and> sessionId (final (handleToggleMode e s)) = None
      \<and> currentEmotion (final (handleToggleMode e s)) = ''neutral''
      \<and> mode (final (handleToggleMode e s)) = (if mode s = Chat then Query else Chat))
   \<and> (truthy (sessionId s) \<and> reset e = Rejects m \<longrightarrow>
      final (handleToggleMode e s) = s\<lparr>mode := (if mode s = Chat then Query else Chat)\<rparr>)"
  by (auto simp: handleToggleMode_def handleClearConversation_def cleared_def
      split: settled.splits)

theorem toggle_clears_when_reset_succeeds_witness:
  "truthy (sessionId
      (initial_state\<lparr>conversation := [userMessage ''hi''], sessionId := Some ''s1''\<rparr>))
   \<and> reset env_ok = Resolves ()
   \<and> conversation (final (handleToggleMode env_ok
        (initial_state\<lparr>conversation := [userMessage ''hi''], sessionId := Some ''s1''\<rparr>)))
       = []
   \<and> sessionId (final (handleToggleMode env_ok
        (initial_state\<lparr>conversation := [userMessage ''hi''], sessionId := Some ''s1''\<rparr>)))
       = None
   \<and> mode (final (handleToggleMode env_ok
        (initial_state\<lparr>conversation := [userMessage ''hi''], sessionId := Some ''s1''\<rparr>)))
       = Query
   \<and> reset env_backend_down = Rejects ''Failed to fetch''
   \<and> final (handleToggleMode env_backend_down
        (initial_state\<lparr>conversation := [userMessage ''hi''], sessionId := Some ''s1''\<rparr>))
       = initial_state\<lparr>conversation := [userMessage ''hi''], sessionId := Some ''s1'',
           mode := Query\<rparr>"
  using toggle_clears_when_reset_succeeds
      [of "initial_state\<lparr>conversation := [userMessage ''hi''], sessionId := Some ''s1''\<rparr>"
        env_ok]
    toggle_clears_when_reset_succeeds
      [of "initial_state\<lparr>conversation := [userMessage ''hi''], sessionId := Some ''s1''\<rparr>"
        env_backend_down "''Failed to fetch''"]
  by (simp add: initial_state_def env_ok_def env_backend_down_def)

section \<open>The session id\<close>

lemma sessionId_handleSpeak [simp]:
  "sessionId (final (handleSpeak e text emotion s)) = sessionId s"
  "mode (final (handleSpeak e text emotion s)) = mode s"
  by (auto simp: handleSpeak_def handleSpeak_fallback_def speechService_speak_def Let_def
      split: settled.splits)


lemma mode_handleUserInput [simp]:
  "mode (final (handleUserInput e text s)) = mode s"
  by (simp add: handleUserInput_def handleUserInput_try_def handleUserInput_catch_def Let_def
      split: settled.splits)






section \<open>An emotion tag outside the enumeration\<close>







section \<open>The on-device fallback\<close>










lemma snaps_handleSpeak_nonempty [simp]: "snaps (handleSpeak e text emotion s) \<noteq> []"
  by (auto simp: handleSpeak_def handleSpeak_fallback_def speechService_speak_def Let_def
      split: settled.splits)

lemma effects_handleSpeak_nonempty [simp]: "effects (handleSpeak e text emotion s) \<noteq> []"
  by (auto simp: handleSpeak_def handleSpeak_fallback_def speechService_speak_def Let_def
      split: settled.splits)








end
